theory Spec2Isabelle
  imports Main "HOL-Library.Word"
begin

section \<open>The debugging checks of \<open>inspect secret\<close> (cmd/ctl/pkg/inspect/secret/secret.go)\<close>

text \<open>
  The theory embeds the three checks that \<open>describeDebugging\<close> runs on the leaf
  certificate of a TLS secret: \<open>describeTrusted\<close>, \<open>describeCRL\<close> and
  \<open>describeOCSP\<close>. Each Go function returns a string; the model returns the same
  string together with the updated world. The world holds what the Go code shares or
  touches outside its arguments: the certificate pools on the heap, the process-wide
  system root pool, the package clock, and a trace of the calls that leave the package
  (CRL fetches, OCSP exchanges, certificate decoding, chain verification).
\<close>

subsection \<open>Data\<close>

type_synonym byte = "8 word"
type_synonym bytes = "byte list"

text \<open>A Go \<open>error\<close> is represented by the text that \<open>err.Error()\<close> returns.\<close>

type_synonym error = string

type_synonym time = int

text \<open>The fields of \<open>x509.Certificate\<close> that the debugging checks can tell apart.\<close>

record certificate =
  SerialNumber :: int
  CRLDistributionPoints :: "string list"
  OCSPServer :: "string list"
  IsCA :: bool

text \<open>\<open>url.URL\<close>: only \<open>Scheme\<close> is read by the code.\<close>

record url =
  Scheme :: string
  Opaque :: string

text \<open>A \<open>*x509.CertPool\<close> is an address into the heap of pools.\<close>

type_synonym poolref = nat

text \<open>
  \<open>x509.VerifyOptions\<close>. A field that the composite literal leaves out is \<open>nil\<close>,
  here \<open>None\<close>.
\<close>

record VerifyOptions =
  Roots :: poolref
  Intermediates :: "poolref option"
  CurrentTime :: time

text \<open>
  Calls that leave the package. A verification is recorded with the contents of the
  pools it was given, as they were at the time of the call.
\<close>

datatype event =
    CRLFetch certificate string
  | DecodeCertificate bytes
  | OCSPExchange certificate certificate
  | Verify certificate "certificate list" "certificate list option" time

record world =
  pools :: "poolref \<Rightarrow> certificate list"
  nextPool :: poolref
  systemRoots :: "error + poolref"
  now :: time
  trace :: "event list"

text \<open>
  The collaborators outside this file, taken as parameters: \<open>url.Parse\<close>, the outcome
  of fetching, parsing and scanning the CRL at a URL for a certificate, the decoder
  \<open>pki.DecodeX509CertificateBytes\<close>, the outcome of the OCSP exchange for a leaf and
  an issuer, the certificates that \<open>AppendCertsFromPEM\<close> finds in a PEM block, and
  the chain verification of \<open>crypto/x509\<close> for given roots, intermediates and time.
\<close>

record env =
  urlParse :: "string \<Rightarrow> error + url"
  crlOutcome :: "certificate \<Rightarrow> string \<Rightarrow> error + bool"
  decodeX509 :: "bytes \<Rightarrow> error + certificate"
  ocspOutcome :: "certificate \<Rightarrow> certificate \<Rightarrow> error + bool"
  certsFromPEM :: "bytes \<Rightarrow> certificate list"
  verifyChain :: "certificate \<Rightarrow> certificate list \<Rightarrow> certificate list option \<Rightarrow> time \<Rightarrow> error option"

text \<open>The events a computation appends to the trace of the world it starts in.\<close>

definition emitted :: "(world \<Rightarrow> 'a \<times> world) \<Rightarrow> world \<Rightarrow> event list" where
  "emitted f w = drop (length (trace w)) (trace (snd (f w)))"

subsection \<open>The CRL check\<close>

text \<open>
  Modelled from the spec: \<open>checkCRLValidCert\<close> is a function of this package that is
  not in secret.go. The spec has it fetch the CRL body at the URL through the transport,
  parse it and scan the revoked entries for the leaf's serial number; it returns an
  error, or whether the certificate is still valid. The outcome for a certificate and a
  URL is the parameter \<open>crlOutcome\<close>; the call is recorded in the trace.
\<close>

definition checkCRLValidCert :: "env \<Rightarrow> certificate \<Rightarrow> string \<Rightarrow> world \<Rightarrow> (error + bool) \<times> world" where
  "checkCRLValidCert E cert crlURL w =
     (crlOutcome E cert crlURL, w\<lparr>trace := trace w @ [CRLFetch cert crlURL]\<rparr>)"

text \<open>
  The \<open>for\<close> loop of \<open>describeCRL\<close> together with the two returns after it; the
  Boolean is the local \<open>hasChecked\<close>.
\<close>

fun describeCRL_loop :: "env \<Rightarrow> certificate \<Rightarrow> string list \<Rightarrow> bool \<Rightarrow> world \<Rightarrow> string \<times> world" where
  "describeCRL_loop E cert [] hasChecked w =
     (if \<not> hasChecked then (''No CRL endpoints we support found'', w)
      else (''Valid'', w))"
| "describeCRL_loop E cert (crlURL # rest) hasChecked w =
     (case urlParse E crlURL of
        Inl err \<Rightarrow> describeCRL_loop E cert rest hasChecked w
      | Inr u \<Rightarrow>
          if Scheme u \<noteq> ''ldap'' \<and> Scheme u \<noteq> ''https''
          then describeCRL_loop E cert rest hasChecked w
          else (case checkCRLValidCert E cert crlURL w of
                  (Inl err, w') \<Rightarrow> (''Cannot check CRL: '' @ err, w')
                | (Inr valid, w') \<Rightarrow>
                    if \<not> valid then (''Revoked by '' @ crlURL, w')
                    else describeCRL_loop E cert rest True w'))"

definition describeCRL :: "env \<Rightarrow> certificate \<Rightarrow> world \<Rightarrow> string \<times> world" where
  "describeCRL E cert w =
     (if length (CRLDistributionPoints cert) < 1 then (''No CRL endpoints set'', w)
      else describeCRL_loop E cert (CRLDistributionPoints cert) False w)"

text \<open>
  A distribution point is supported when it passes both guards of the loop body:
  it parses, and its scheme is \<open>ldap\<close> or \<open>https\<close>.
\<close>

definition supportedURL :: "env \<Rightarrow> string \<Rightarrow> bool" where
  "supportedURL E crlURL =
     (case urlParse E crlURL of
        Inl err \<Rightarrow> False
      | Inr u \<Rightarrow> Scheme u = ''ldap'' \<or> Scheme u = ''https'')"

text \<open>A CRL that was fetched and does not list the leaf.\<close>

definition crlClean :: "env \<Rightarrow> certificate \<Rightarrow> string \<Rightarrow> bool" where
  "crlClean E cert crlURL = (crlOutcome E cert crlURL = Inr True)"

subsection \<open>The OCSP check\<close>

text \<open>
  \<open>pki.DecodeX509CertificateBytes\<close> lives in another package of the repository; its
  result is the parameter \<open>decodeX509\<close>, and the bytes it is given are recorded.
\<close>

definition DecodeX509CertificateBytes :: "env \<Rightarrow> bytes \<Rightarrow> world \<Rightarrow> (error + certificate) \<times> world" where
  "DecodeX509CertificateBytes E b w =
     (decodeX509 E b, w\<lparr>trace := trace w @ [DecodeCertificate b]\<rparr>)"

text \<open>
  Modelled from the spec: \<open>checkOCSPValidCert\<close> is a function of this package that is
  not in secret.go. The spec has it build one OCSP request for the leaf and the issuer,
  send it to the responder through the transport and parse the response; it returns an
  error, or whether the certificate is still good. The outcome is the parameter
  \<open>ocspOutcome\<close>; the exchange is recorded in the trace.
\<close>

definition checkOCSPValidCert :: "env \<Rightarrow> certificate \<Rightarrow> certificate \<Rightarrow> world \<Rightarrow> (error + bool) \<times> world" where
  "checkOCSPValidCert E cert issuerCert w =
     (ocspOutcome E cert issuerCert, w\<lparr>trace := trace w @ [OCSPExchange cert issuerCert]\<rparr>)"

text \<open>
  \<open>append([][]byte{ca}, intermediates...)\<close> puts \<open>ca\<close> in front;
  \<open>intermediates[len(intermediates)-1]\<close> is the last element, read only after the
  length test has excluded the empty slice.
\<close>

definition describeOCSP :: "env \<Rightarrow> certificate \<Rightarrow> bytes list \<Rightarrow> bytes \<Rightarrow> world \<Rightarrow> string \<times> world" where
  "describeOCSP E cert intermediates ca w =
     (let intermediates = (if length ca > 1 then [ca] @ intermediates else intermediates) in
      if length intermediates < 1
      then (''Cannot check OCSP, does not have a CA or intermediate certificate provided'', w)
      else (case DecodeX509CertificateBytes E (last intermediates) w of
              (Inl err, w1) \<Rightarrow> (''Cannot parse intermediate certificate: '' @ err, w1)
            | (Inr issuerCert, w1) \<Rightarrow>
                (case checkOCSPValidCert E cert issuerCert w1 of
                   (Inl err, w2) \<Rightarrow> (''Cannot check OCSP: '' @ err, w2)
                 | (Inr valid, w2) \<Rightarrow>
                     if \<not> valid then (''Marked as revoked'', w2)
                     else (''valid'', w2))))"

subsection \<open>The trust check\<close>

text \<open>
  Modelled from the spec: \<open>x509.SystemCertPool\<close> belongs to the Go standard library and
  is not in the sources. The spec has every evaluation clone the platform trust store
  before adding to it, which is also what the library documents: the call returns a copy
  of the process-wide pool, or the error of loading it. The copy is a newly allocated pool.
\<close>

definition SystemCertPool :: "world \<Rightarrow> (error + poolref) \<times> world" where
  "SystemCertPool w =
     (case systemRoots w of
        Inl err \<Rightarrow> (Inl err, w)
      | Inr shared \<Rightarrow>
          (Inr (nextPool w),
           w\<lparr>pools := (pools w)(nextPool w := pools w shared), nextPool := Suc (nextPool w)\<rparr>))"

text \<open>
  \<open>(*CertPool).AppendCertsFromPEM\<close> adds the certificates found in the PEM data to the
  pool behind the pointer, in place, and reports whether it found any.
\<close>

definition AppendCertsFromPEM :: "env \<Rightarrow> poolref \<Rightarrow> bytes \<Rightarrow> world \<Rightarrow> bool \<times> world" where
  "AppendCertsFromPEM E s pemCerts w =
     (certsFromPEM E pemCerts \<noteq> [],
      w\<lparr>pools := (pools w)(s := pools w s @ certsFromPEM E pemCerts)\<rparr>)"

text \<open>\<open>(*Certificate).Verify\<close>: reads the pools named by the options.\<close>

definition Verify_cert :: "env \<Rightarrow> certificate \<Rightarrow> VerifyOptions \<Rightarrow> world \<Rightarrow> error option \<times> world" where
  "Verify_cert E cert opts w =
     (let roots = pools w (Roots opts);
          interm = map_option (pools w) (Intermediates opts)
      in (verifyChain E cert roots interm (CurrentTime opts),
          w\<lparr>trace := trace w @ [Verify cert roots interm (CurrentTime opts)]\<rparr>))"

text \<open>\<open>clock.Now()\<close> on the package variable \<open>clock\<close>.\<close>

definition clock_Now :: "world \<Rightarrow> time" where
  "clock_Now w = now w"

text \<open>The \<open>for\<close> loop of \<open>describeTrusted\<close>; the result of each append is dropped.\<close>

fun describeTrusted_loop :: "env \<Rightarrow> poolref \<Rightarrow> bytes list \<Rightarrow> world \<Rightarrow> world" where
  "describeTrusted_loop E systemPool [] w = w"
| "describeTrusted_loop E systemPool (intermediate # rest) w =
     describeTrusted_loop E systemPool rest (snd (AppendCertsFromPEM E systemPool intermediate w))"

definition describeTrusted :: "env \<Rightarrow> certificate \<Rightarrow> bytes list \<Rightarrow> world \<Rightarrow> string \<times> world" where
  "describeTrusted E cert intermediates w =
     (case SystemCertPool w of
        (Inl err, w1) \<Rightarrow> (''Error getting system CA store: '' @ err, w1)
      | (Inr systemPool, w1) \<Rightarrow>
          (let w2 = describeTrusted_loop E systemPool intermediates w1 in
           case Verify_cert E cert
                  \<lparr>Roots = systemPool, Intermediates = None, CurrentTime = clock_Now w2\<rparr> w2 of
             (None, w3) \<Rightarrow> (''yes'', w3)
           | (Some err, w3) \<Rightarrow> (''no: '' @ err, w3)))"

subsection \<open>The three checks together\<close>

text \<open>
  \<open>debuggingTemplate\<close> with its three \<open>%s\<close> filled in; Go evaluates the arguments
  of \<open>Sprintf\<close> from left to right.
\<close>

definition debuggingTemplate :: "string \<Rightarrow> string \<Rightarrow> string \<Rightarrow> string" where
  "debuggingTemplate t c s =
     ''Debugging:'' @ [CHR 0x0A, CHR 0x09] @ ''Trusted by this computer:'' @ [CHR 0x09] @ t
       @ [CHR 0x0A, CHR 0x09] @ ''CRL Status:'' @ [CHR 0x09] @ c
       @ [CHR 0x0A, CHR 0x09] @ ''OCSP Status:'' @ [CHR 0x09] @ s"

definition describeDebugging :: "env \<Rightarrow> certificate \<Rightarrow> bytes list \<Rightarrow> bytes \<Rightarrow> world \<Rightarrow> string \<times> world" where
  "describeDebugging E cert intermediates ca w =
     (case describeTrusted E cert intermediates w of (t, w1) \<Rightarrow>
      case describeCRL E cert w1 of (c, w2) \<Rightarrow>
      case describeOCSP E cert intermediates ca w2 of (s, w3) \<Rightarrow>
        (debuggingTemplate t c s, w3))"

subsection \<open>The system store as evaluations see it\<close>

text \<open>
  The contents of the process-wide system pool, or the error of loading it: what a call
  of \<open>SystemCertPool\<close> hands out.
\<close>

definition systemStore :: "world \<Rightarrow> error + certificate list" where
  "systemStore w = (case systemRoots w of Inl err \<Rightarrow> Inl err | Inr shared \<Rightarrow> Inr (pools w shared))"

text \<open>
  Pools are allocated at increasing addresses, so the process-wide pool, if it was loaded,
  lies below the next free address.
\<close>

definition wellAllocated :: "world \<Rightarrow> bool" where
  "wellAllocated w = (case systemRoots w of Inl err \<Rightarrow> True | Inr shared \<Rightarrow> shared < nextPool w)"

subsection \<open>A small concrete setting\<close>

text \<open>
  Stand-ins for the collaborators, used to run the checks on concrete inputs: a parser
  that takes the scheme up to the first colon, a transport with three known URLs, a
  decoder that accepts at least two bytes, and a verifier that accepts a certificate
  when a root carries the next serial number.
\<close>

definition demoParse :: "string \<Rightarrow> error + url" where
  "demoParse s =
     (if s = [] \<or> hd s = CHR '':'' then Inl ''missing protocol scheme''
      else Inr \<lparr>Scheme = (if CHR '':'' \<in> set s then takeWhile (\<lambda>c. c \<noteq> CHR '':'') s else []),
                Opaque = drop 1 (dropWhile (\<lambda>c. c \<noteq> CHR '':'') s)\<rparr>)"

definition demoCRL :: "certificate \<Rightarrow> string \<Rightarrow> error + bool" where
  "demoCRL cert crlURL =
     (if crlURL = ''https://a/revoked'' then Inr False
      else if crlURL = ''ldap://b/down'' then Inl ''connection refused''
      else Inr True)"

definition demoCert :: "int \<Rightarrow> string list \<Rightarrow> certificate" where
  "demoCert n dps = \<lparr>SerialNumber = n, CRLDistributionPoints = dps, OCSPServer = [], IsCA = False\<rparr>"

definition demoDecode :: "bytes \<Rightarrow> error + certificate" where
  "demoDecode b =
     (if length b < 2 then Inl ''malformed certificate''
      else Inr (demoCert (int (length b)) []))"

definition demoOCSP :: "certificate \<Rightarrow> certificate \<Rightarrow> error + bool" where
  "demoOCSP cert issuerCert =
     (if SerialNumber issuerCert = 2 then Inr True
      else if SerialNumber issuerCert = 3 then Inr False
      else Inl ''responder unavailable'')"

definition demoPEM :: "bytes \<Rightarrow> certificate list" where
  "demoPEM b = (case demoDecode b of Inl err \<Rightarrow> [] | Inr c \<Rightarrow> [c])"

definition demoVerify :: "certificate \<Rightarrow> certificate list \<Rightarrow> certificate list option \<Rightarrow> time \<Rightarrow> error option" where
  "demoVerify cert roots interm t =
     (if list_ex (\<lambda>r. SerialNumber r = SerialNumber cert + 1) roots then None
      else Some ''x509: certificate signed by unknown authority'')"

definition demoEnv :: env where
  "demoEnv = \<lparr>urlParse = demoParse, crlOutcome = demoCRL, decodeX509 = demoDecode,
              ocspOutcome = demoOCSP, certsFromPEM = demoPEM, verifyChain = demoVerify\<rparr>"

definition demoWorld :: world where
  "demoWorld = \<lparr>pools = (\<lambda>p. if p = 0 then [demoCert 100 []] else []), nextPool = 1,
                systemRoots = Inr 0, now = 1000, trace = []\<rparr>"

subsection \<open>Properties of the CRL loop\<close>

lemma describeCRL_loop_skip:
  "\<not> supportedURL E crlURL \<Longrightarrow>
     describeCRL_loop E cert (crlURL # rest) hc w = describeCRL_loop E cert rest hc w"
  by (auto simp: supportedURL_def split: sum.splits)

lemma describeCRL_loop_clean:
  "supportedURL E crlURL \<Longrightarrow> crlClean E cert crlURL \<Longrightarrow>
     describeCRL_loop E cert (crlURL # rest) hc w =
       describeCRL_loop E cert rest True (w\<lparr>trace := trace w @ [CRLFetch cert crlURL]\<rparr>)"
  by (auto simp: supportedURL_def crlClean_def checkCRLValidCert_def split: sum.splits)

lemma describeCRL_loop_error:
  "supportedURL E crlURL \<Longrightarrow> crlOutcome E cert crlURL = Inl e \<Longrightarrow>
     describeCRL_loop E cert (crlURL # rest) hc w =
       (''Cannot check CRL: '' @ e, w\<lparr>trace := trace w @ [CRLFetch cert crlURL]\<rparr>)"
  by (auto simp: supportedURL_def checkCRLValidCert_def split: sum.splits)

lemma describeCRL_loop_revoked:
  "supportedURL E crlURL \<Longrightarrow> crlOutcome E cert crlURL = Inr False \<Longrightarrow>
     describeCRL_loop E cert (crlURL # rest) hc w =
       (''Revoked by '' @ crlURL, w\<lparr>trace := trace w @ [CRLFetch cert crlURL]\<rparr>)"
  by (auto simp: supportedURL_def checkCRLValidCert_def split: sum.splits)

lemma describeCRL_loop_char:
  "describeCRL_loop E cert us hc w =
    (let S = filter (supportedURL E) us;
         rest = dropWhile (crlClean E cert) S
     in ((case rest of
            [] \<Rightarrow> (if hc \<or> S \<noteq> [] then ''Valid'' else ''No CRL endpoints we support found'')
          | u # _ \<Rightarrow> (case crlOutcome E cert u of
                        Inl e \<Rightarrow> ''Cannot check CRL: '' @ e
                      | Inr _ \<Rightarrow> ''Revoked by '' @ u)),
         w\<lparr>trace := trace w @ map (CRLFetch cert) (takeWhile (crlClean E cert) S @ take 1 rest)\<rparr>))"
proof (induction us arbitrary: hc w)
  case Nil
  show ?case by simp
next
  case (Cons u us)
  show ?case
  proof (cases "supportedURL E u")
    case False
    then show ?thesis
      using Cons.IH [of hc w] by (simp add: describeCRL_loop_skip Let_def del: describeCRL_loop.simps)
  next
    case sup: True
    show ?thesis
    proof (cases "crlOutcome E cert u")
      case (Inl e)
      then have "\<not> crlClean E cert u" by (simp add: crlClean_def)
      with sup Inl show ?thesis
        by (simp add: describeCRL_loop_error Let_def del: describeCRL_loop.simps)
    next
      case (Inr v)
      show ?thesis
      proof (cases v)
        case True
        with Inr have cl: "crlClean E cert u" by (simp add: crlClean_def)
        show ?thesis
          using Cons.IH [of True "w\<lparr>trace := trace w @ [CRLFetch cert u]\<rparr>"] sup cl
          by (simp add: describeCRL_loop_clean Let_def del: describeCRL_loop.simps)
      next
        case False
        with Inr have "\<not> crlClean E cert u" by (simp add: crlClean_def)
        with sup Inr False show ?thesis
          by (simp add: describeCRL_loop_revoked Let_def del: describeCRL_loop.simps)
      qed
    qed
  qed
qed


lemma describeCRL_char:
  "describeCRL E cert w =
    (let S = filter (supportedURL E) (CRLDistributionPoints cert);
         rest = dropWhile (crlClean E cert) S
     in ((if CRLDistributionPoints cert = [] then ''No CRL endpoints set''
          else case rest of
            [] \<Rightarrow> (if S \<noteq> [] then ''Valid'' else ''No CRL endpoints we support found'')
          | u # _ \<Rightarrow> (case crlOutcome E cert u of
                        Inl e \<Rightarrow> ''Cannot check CRL: '' @ e
                      | Inr _ \<Rightarrow> ''Revoked by '' @ u)),
         w\<lparr>trace := trace w @ map (CRLFetch cert) (takeWhile (crlClean E cert) S @ take 1 rest)\<rparr>))"
  by (cases "CRLDistributionPoints cert = []")
     (simp_all add: describeCRL_def describeCRL_loop_char Let_def del: describeCRL_loop.simps)

lemma describeCRL_emitted:
  "emitted (describeCRL E cert) w =
     map (CRLFetch cert)
       (takeWhile (crlClean E cert) (filter (supportedURL E) (CRLDistributionPoints cert))
        @ take 1 (dropWhile (crlClean E cert) (filter (supportedURL E) (CRLDistributionPoints cert))))"
  by (simp add: emitted_def describeCRL_char Let_def)

lemma describeCRL_fst:
  "fst (describeCRL E cert w) =
     (if CRLDistributionPoints cert = [] then ''No CRL endpoints set''
      else case dropWhile (crlClean E cert) (filter (supportedURL E) (CRLDistributionPoints cert)) of
            [] \<Rightarrow> (if filter (supportedURL E) (CRLDistributionPoints cert) \<noteq> [] then ''Valid''
                   else ''No CRL endpoints we support found'')
          | u # _ \<Rightarrow> (case crlOutcome E cert u of
                        Inl e \<Rightarrow> ''Cannot check CRL: '' @ e
                      | Inr _ \<Rightarrow> ''Revoked by '' @ u))"
  by (simp add: describeCRL_char Let_def)

text \<open>
  Claim C3. The CRL check answers "not applicable" in exactly two situations, each with its
  own text: \<open>No CRL endpoints set\<close> exactly when the certificate has no distribution
  point, and \<open>No CRL endpoints we support found\<close> exactly when it has some and none
  of them parses with scheme \<open>ldap\<close> or \<open>https\<close>. In both situations the world is
  returned as it was: no CRL is fetched.
\<close>

theorem crl_not_applicable:
  "(fst (describeCRL E cert w) = ''No CRL endpoints set'' \<longleftrightarrow> CRLDistributionPoints cert = []) \<and>
   (fst (describeCRL E cert w) = ''No CRL endpoints we support found'' \<longleftrightarrow>
      CRLDistributionPoints cert \<noteq> [] \<and> (\<forall>u \<in> set (CRLDistributionPoints cert). \<not> supportedURL E u)) \<and>
   ((\<forall>u \<in> set (CRLDistributionPoints cert). \<not> supportedURL E u) \<longrightarrow> snd (describeCRL E cert w) = w)"
proof (intro conjI)
  show "fst (describeCRL E cert w) = ''No CRL endpoints set'' \<longleftrightarrow> CRLDistributionPoints cert = []"
    by (simp add: describeCRL_fst split: list.splits sum.splits)
  show "fst (describeCRL E cert w) = ''No CRL endpoints we support found'' \<longleftrightarrow>
      CRLDistributionPoints cert \<noteq> [] \<and> (\<forall>u \<in> set (CRLDistributionPoints cert). \<not> supportedURL E u)"
    by (auto simp: describeCRL_fst filter_empty_conv split: list.splits sum.splits)
  show "(\<forall>u \<in> set (CRLDistributionPoints cert). \<not> supportedURL E u) \<longrightarrow> snd (describeCRL E cert w) = w"
    by (simp add: describeCRL_char Let_def filter_False)
qed


theorem crl_not_applicable_witness:
  "\<not> supportedURL demoEnv ''ftp://x/y'' \<and> \<not> supportedURL demoEnv '':bad'' \<and>
   describeCRL demoEnv (demoCert 1 [''ftp://x/y'', '':bad'']) demoWorld =
     (''No CRL endpoints we support found'', demoWorld)"
proof -
  have h: "\<forall>u \<in> set (CRLDistributionPoints (demoCert 1 [''ftp://x/y'', '':bad''])). \<not> supportedURL demoEnv u"
    by (simp add: demoCert_def supportedURL_def demoEnv_def demoParse_def)
  have ne: "CRLDistributionPoints (demoCert 1 [''ftp://x/y'', '':bad'']) \<noteq> []"
    by (simp add: demoCert_def)
  from crl_not_applicable [of demoEnv "demoCert 1 [''ftp://x/y'', '':bad'']" demoWorld] h ne
  have "fst (describeCRL demoEnv (demoCert 1 [''ftp://x/y'', '':bad'']) demoWorld) = ''No CRL endpoints we support found''"
    and "snd (describeCRL demoEnv (demoCert 1 [''ftp://x/y'', '':bad'']) demoWorld) = demoWorld"
    by blast+
  then have "describeCRL demoEnv (demoCert 1 [''ftp://x/y'', '':bad'']) demoWorld =
     (''No CRL endpoints we support found'', demoWorld)"
    by (simp add: prod_eq_iff)
  moreover have "\<not> supportedURL demoEnv ''ftp://x/y''" "\<not> supportedURL demoEnv '':bad''"
    by (simp_all add: supportedURL_def demoEnv_def demoParse_def)
  ultimately show ?thesis by simp
qed

text \<open>
  Claim C4. Let a supported distribution point of the certificate have a CRL that cannot be
  fetched or parsed. Then the CRL check never answers \<open>Valid\<close>; and when the check
  does fetch from that URL, it answers \<open>Cannot check CRL\<close> with that error and the
  fetch is the last one it makes: no later URL is tried.
\<close>

theorem crl_error_immediate:
  assumes member: "u \<in> set (CRLDistributionPoints cert)"
      and supported: "supportedURL E u"
      and fails: "crlOutcome E cert u = Inl e"
  shows "fst (describeCRL E cert w) \<noteq> ''Valid'' \<and>
         (CRLFetch cert u \<in> set (emitted (describeCRL E cert) w) \<longrightarrow>
            fst (describeCRL E cert w) = ''Cannot check CRL: '' @ e \<and>
            last (emitted (describeCRL E cert) w) = CRLFetch cert u)"
proof -
  let ?S = "filter (supportedURL E) (CRLDistributionPoints cert)"
  let ?rest = "dropWhile (crlClean E cert) ?S"
  from fails have dirty: "\<not> crlClean E cert u" by (simp add: crlClean_def)
  from member supported have inS: "u \<in> set ?S" by simp
  from member have ne: "CRLDistributionPoints cert \<noteq> []" by auto
  from inS dirty have "?rest \<noteq> []" by (auto simp: dropWhile_eq_Nil_conv)
  then obtain v vs where rest: "?rest = v # vs" by (cases ?rest) auto
  have notValid: "fst (describeCRL E cert w) \<noteq> ''Valid''"
    using ne rest by (simp add: describeCRL_fst split: sum.splits)
  have reached: "fst (describeCRL E cert w) = ''Cannot check CRL: '' @ e \<and>
            last (emitted (describeCRL E cert) w) = CRLFetch cert u"
    if ev: "CRLFetch cert u \<in> set (emitted (describeCRL E cert) w)"
  proof -
    from ev rest have "u \<in> set (takeWhile (crlClean E cert) ?S) \<or> u = v"
      by (auto simp: describeCRL_emitted)
    with dirty have "u = v" by (auto dest: set_takeWhileD)
    with rest fails ne show ?thesis
      by (simp add: describeCRL_fst describeCRL_emitted)
  qed
  from notValid reached show ?thesis by blast
qed

theorem crl_error_immediate_witness:
  "fst (describeCRL demoEnv (demoCert 1 [''https://a/ok'', ''ldap://b/down'', ''https://a/revoked'']) demoWorld)
     = ''Cannot check CRL: connection refused'' \<and>
   last (emitted (describeCRL demoEnv (demoCert 1 [''https://a/ok'', ''ldap://b/down'', ''https://a/revoked''])) demoWorld)
     = CRLFetch (demoCert 1 [''https://a/ok'', ''ldap://b/down'', ''https://a/revoked'']) ''ldap://b/down''"
proof -
  let ?c = "demoCert 1 [''https://a/ok'', ''ldap://b/down'', ''https://a/revoked'']"
  have m: "''ldap://b/down'' \<in> set (CRLDistributionPoints ?c)" by (simp add: demoCert_def)
  have s: "supportedURL demoEnv ''ldap://b/down''"
    by (simp add: supportedURL_def demoEnv_def demoParse_def)
  have f: "crlOutcome demoEnv ?c ''ldap://b/down'' = Inl ''connection refused''"
    by (simp add: demoEnv_def demoCRL_def)
  have ev: "CRLFetch ?c ''ldap://b/down'' \<in> set (emitted (describeCRL demoEnv ?c) demoWorld)"
    by (simp add: emitted_def describeCRL_def checkCRLValidCert_def demoEnv_def demoParse_def
          demoCRL_def demoCert_def demoWorld_def)
  from crl_error_immediate [OF m s f, of demoWorld] ev show ?thesis by simp
qed


subsection \<open>Order of processing and skipped URLs\<close>

lemma filter_clean_prefix:
  assumes "\<forall>x \<in> set pre. supportedURL E x \<longrightarrow> crlClean E cert x"
  shows "takeWhile (crlClean E cert) (filter (supportedURL E) pre @ ys) =
           filter (supportedURL E) pre @ takeWhile (crlClean E cert) ys"
    and "dropWhile (crlClean E cert) (filter (supportedURL E) pre @ ys) =
           dropWhile (crlClean E cert) ys"
proof -
  from assms have all: "\<And>x. x \<in> set (filter (supportedURL E) pre) \<Longrightarrow> crlClean E cert x"
    by simp
  show "takeWhile (crlClean E cert) (filter (supportedURL E) pre @ ys) =
           filter (supportedURL E) pre @ takeWhile (crlClean E cert) ys"
    by (rule takeWhile_append2) (rule all)
  show "dropWhile (crlClean E cert) (filter (supportedURL E) pre @ ys) =
           dropWhile (crlClean E cert) ys"
    by (rule dropWhile_append2) (rule all)
qed

text \<open>
  Claim C5. The distribution points are processed in the order of the list, and the first
  supported one whose CRL is not clean decides. If every supported URL before \<open>u\<close> has
  a clean CRL and the CRL at \<open>u\<close> lists the leaf, the answer is \<open>Revoked by u\<close>; if
  instead the CRL at \<open>u\<close> cannot be fetched or parsed, the answer is that error. In
  both cases the fetches made are those of the supported URLs before \<open>u\<close>, in order,
  then \<open>u\<close>. If there is a supported URL and every supported URL has a clean CRL, the
  answer is \<open>Valid\<close>, after fetching all of them in order.
\<close>

theorem crl_first_definitive:
  "(CRLDistributionPoints cert = pre @ u # post \<and>
    (\<forall>x \<in> set pre. supportedURL E x \<longrightarrow> crlClean E cert x) \<and>
    supportedURL E u \<and> crlOutcome E cert u = Inr False \<longrightarrow>
      describeCRL E cert w =
        (''Revoked by '' @ u,
         w\<lparr>trace := trace w @ map (CRLFetch cert) (filter (supportedURL E) pre @ [u])\<rparr>)) \<and>
   (CRLDistributionPoints cert = pre @ u # post \<and>
    (\<forall>x \<in> set pre. supportedURL E x \<longrightarrow> crlClean E cert x) \<and>
    supportedURL E u \<and> crlOutcome E cert u = Inl e \<longrightarrow>
      describeCRL E cert w =
        (''Cannot check CRL: '' @ e,
         w\<lparr>trace := trace w @ map (CRLFetch cert) (filter (supportedURL E) pre @ [u])\<rparr>)) \<and>
   ((\<exists>x \<in> set (CRLDistributionPoints cert). supportedURL E x) \<and>
    (\<forall>x \<in> set (CRLDistributionPoints cert). supportedURL E x \<longrightarrow> crlClean E cert x) \<longrightarrow>
      describeCRL E cert w =
        (''Valid'',
         w\<lparr>trace := trace w @ map (CRLFetch cert) (filter (supportedURL E) (CRLDistributionPoints cert))\<rparr>))"
proof (intro conjI impI)
  assume a: "CRLDistributionPoints cert = pre @ u # post \<and>
    (\<forall>x \<in> set pre. supportedURL E x \<longrightarrow> crlClean E cert x) \<and>
    supportedURL E u \<and> crlOutcome E cert u = Inr False"
  then have dirty: "\<not> crlClean E cert u" by (simp add: crlClean_def)
  from a have pre: "\<forall>x \<in> set pre. supportedURL E x \<longrightarrow> crlClean E cert x" by simp
  from a dirty show "describeCRL E cert w =
        (''Revoked by '' @ u,
         w\<lparr>trace := trace w @ map (CRLFetch cert) (filter (supportedURL E) pre @ [u])\<rparr>)"
    by (simp add: describeCRL_char Let_def filter_clean_prefix [OF pre])
next
  assume a: "CRLDistributionPoints cert = pre @ u # post \<and>
    (\<forall>x \<in> set pre. supportedURL E x \<longrightarrow> crlClean E cert x) \<and>
    supportedURL E u \<and> crlOutcome E cert u = Inl e"
  then have dirty: "\<not> crlClean E cert u" by (simp add: crlClean_def)
  from a have pre: "\<forall>x \<in> set pre. supportedURL E x \<longrightarrow> crlClean E cert x" by simp
  from a dirty show "describeCRL E cert w =
        (''Cannot check CRL: '' @ e,
         w\<lparr>trace := trace w @ map (CRLFetch cert) (filter (supportedURL E) pre @ [u])\<rparr>)"
    by (simp add: describeCRL_char Let_def filter_clean_prefix [OF pre])
next
  assume a: "(\<exists>x \<in> set (CRLDistributionPoints cert). supportedURL E x) \<and>
    (\<forall>x \<in> set (CRLDistributionPoints cert). supportedURL E x \<longrightarrow> crlClean E cert x)"
  let ?S = "filter (supportedURL E) (CRLDistributionPoints cert)"
  from a have ne: "CRLDistributionPoints cert \<noteq> []" and S: "?S \<noteq> []"
    by (auto simp: filter_empty_conv)
  from a have "\<forall>x \<in> set ?S. crlClean E cert x" by simp
  then have tw: "takeWhile (crlClean E cert) ?S = ?S" "dropWhile (crlClean E cert) ?S = []"
    by (simp_all add: takeWhile_eq_all_conv)
  from ne S show "describeCRL E cert w =
        (''Valid'', w\<lparr>trace := trace w @ map (CRLFetch cert) ?S\<rparr>)"
    by (simp add: describeCRL_char Let_def tw)
qed

theorem crl_first_definitive_witness:
  "describeCRL demoEnv (demoCert 1 [''ftp://x/y'', ''https://a/ok'', ''https://a/revoked'', ''ldap://b/down'']) demoWorld =
     (''Revoked by https://a/revoked'',
      demoWorld\<lparr>trace := map (CRLFetch (demoCert 1 [''ftp://x/y'', ''https://a/ok'', ''https://a/revoked'', ''ldap://b/down'']))
                            [''https://a/ok'', ''https://a/revoked'']\<rparr>) \<and>
   describeCRL demoEnv (demoCert 1 [''ftp://x/y'', ''https://a/ok'', ''ldap://b/down'', ''https://a/revoked'']) demoWorld =
     (''Cannot check CRL: connection refused'',
      demoWorld\<lparr>trace := map (CRLFetch (demoCert 1 [''ftp://x/y'', ''https://a/ok'', ''ldap://b/down'', ''https://a/revoked'']))
                            [''https://a/ok'', ''ldap://b/down'']\<rparr>) \<and>
   describeCRL demoEnv (demoCert 1 [''ftp://x/y'', ''https://a/ok'', ''ldap://c/ok'']) demoWorld =
     (''Valid'',
      demoWorld\<lparr>trace := map (CRLFetch (demoCert 1 [''ftp://x/y'', ''https://a/ok'', ''ldap://c/ok'']))
                            [''https://a/ok'', ''ldap://c/ok'']\<rparr>)"
proof -
  let ?c1 = "demoCert 1 [''ftp://x/y'', ''https://a/ok'', ''https://a/revoked'', ''ldap://b/down'']"
  let ?c2 = "demoCert 1 [''ftp://x/y'', ''https://a/ok'', ''ldap://b/down'', ''https://a/revoked'']"
  let ?c3 = "demoCert 1 [''ftp://x/y'', ''https://a/ok'', ''ldap://c/ok'']"
  note ev = supportedURL_def crlClean_def demoEnv_def demoParse_def demoCRL_def demoCert_def demoWorld_def
  have h1: "CRLDistributionPoints ?c1 = [''ftp://x/y'', ''https://a/ok''] @ ''https://a/revoked'' # [''ldap://b/down''] \<and>
    (\<forall>x \<in> set [''ftp://x/y'', ''https://a/ok'']. supportedURL demoEnv x \<longrightarrow> crlClean demoEnv ?c1 x) \<and>
    supportedURL demoEnv ''https://a/revoked'' \<and> crlOutcome demoEnv ?c1 ''https://a/revoked'' = Inr False"
    by (simp add: ev)
  have h2: "CRLDistributionPoints ?c2 = [''ftp://x/y'', ''https://a/ok''] @ ''ldap://b/down'' # [''https://a/revoked''] \<and>
    (\<forall>x \<in> set [''ftp://x/y'', ''https://a/ok'']. supportedURL demoEnv x \<longrightarrow> crlClean demoEnv ?c2 x) \<and>
    supportedURL demoEnv ''ldap://b/down'' \<and> crlOutcome demoEnv ?c2 ''ldap://b/down'' = Inl ''connection refused''"
    by (simp add: ev)
  have h3: "(\<exists>x \<in> set (CRLDistributionPoints ?c3). supportedURL demoEnv x) \<and>
    (\<forall>x \<in> set (CRLDistributionPoints ?c3). supportedURL demoEnv x \<longrightarrow> crlClean demoEnv ?c3 x)"
    by (simp add: ev)
  have f: "filter (supportedURL demoEnv) [''ftp://x/y'', ''https://a/ok''] = [''https://a/ok'']"
     "filter (supportedURL demoEnv) (CRLDistributionPoints ?c3) = [''https://a/ok'', ''ldap://c/ok'']"
    by (simp_all add: ev)
  have t: "trace demoWorld = []" by (simp add: demoWorld_def)
  from crl_first_definitive [of ?c1 "[''ftp://x/y'', ''https://a/ok'']" "''https://a/revoked''" "[''ldap://b/down'']" demoEnv demoWorld] h1
  have r1: "describeCRL demoEnv ?c1 demoWorld =
     (''Revoked by https://a/revoked'', demoWorld\<lparr>trace := map (CRLFetch ?c1) [''https://a/ok'', ''https://a/revoked'']\<rparr>)"
    by (simp only: f t) simp
  from crl_first_definitive [of ?c2 "[''ftp://x/y'', ''https://a/ok'']" "''ldap://b/down''" "[''https://a/revoked'']" demoEnv demoWorld "''connection refused''"] h2
  have r2: "describeCRL demoEnv ?c2 demoWorld =
     (''Cannot check CRL: connection refused'', demoWorld\<lparr>trace := map (CRLFetch ?c2) [''https://a/ok'', ''ldap://b/down'']\<rparr>)"
    by (simp only: f t) simp
  from crl_first_definitive [of ?c3 _ _ _ demoEnv demoWorld] h3
  have r3: "describeCRL demoEnv ?c3 demoWorld =
     (''Valid'', demoWorld\<lparr>trace := map (CRLFetch ?c3) [''https://a/ok'', ''ldap://c/ok'']\<rparr>)"
    by (simp only: f t) simp
  from r1 r2 r3 show ?thesis by blast
qed


lemma describeCRL_loop_filter:
  "describeCRL_loop E cert us hc w = describeCRL_loop E cert (filter (supportedURL E) us) hc w"
  by (simp add: describeCRL_loop_char [of E cert us] describeCRL_loop_char [of E cert "filter (supportedURL E) us"]
        Let_def del: describeCRL_loop.simps)

text \<open>
  Claim C6. Distribution points that do not parse or whose scheme is neither \<open>ldap\<close>
  nor \<open>https\<close> are skipped without error: on a non-empty list the check is the loop run
  over the supported URLs alone. Every event the check emits is the fetch of a supported
  URL of the certificate, so no fetch is made for an unsupported one. If the list is not
  empty and holds only unsupported URLs, the answer is
  \<open>No CRL endpoints we support found\<close> and the world is unchanged.
\<close>

theorem crl_unsupported_skipped:
  "describeCRL E cert w =
     (if CRLDistributionPoints cert = [] then (''No CRL endpoints set'', w)
      else describeCRL_loop E cert (filter (supportedURL E) (CRLDistributionPoints cert)) False w) \<and>
   (\<forall>ev \<in> set (emitted (describeCRL E cert) w).
      \<exists>u \<in> set (CRLDistributionPoints cert). supportedURL E u \<and> ev = CRLFetch cert u) \<and>
   (CRLDistributionPoints cert \<noteq> [] \<and> (\<forall>u \<in> set (CRLDistributionPoints cert). \<not> supportedURL E u) \<longrightarrow>
      describeCRL E cert w = (''No CRL endpoints we support found'', w))"
proof (intro conjI impI)
  show "describeCRL E cert w =
     (if CRLDistributionPoints cert = [] then (''No CRL endpoints set'', w)
      else describeCRL_loop E cert (filter (supportedURL E) (CRLDistributionPoints cert)) False w)"
    using describeCRL_loop_filter [of E cert "CRLDistributionPoints cert" False w]
    by (simp add: describeCRL_def del: describeCRL_loop.simps)
next
  let ?S = "filter (supportedURL E) (CRLDistributionPoints cert)"
  show "\<forall>ev \<in> set (emitted (describeCRL E cert) w).
      \<exists>u \<in> set (CRLDistributionPoints cert). supportedURL E u \<and> ev = CRLFetch cert u"
  proof
    fix ev
    assume "ev \<in> set (emitted (describeCRL E cert) w)"
    then obtain u where ev: "ev = CRLFetch cert u"
      and u: "u \<in> set (takeWhile (crlClean E cert) ?S) \<or> u \<in> set (take 1 (dropWhile (crlClean E cert) ?S))"
      unfolding describeCRL_emitted by auto
    from u have "u \<in> set ?S"
    proof
      assume "u \<in> set (takeWhile (crlClean E cert) ?S)"
      then show ?thesis by (rule set_takeWhileD [THEN conjunct1])
    next
      assume "u \<in> set (take 1 (dropWhile (crlClean E cert) ?S))"
      then have "u \<in> set (dropWhile (crlClean E cert) ?S)" by (rule in_set_takeD)
      then show ?thesis by (rule set_dropWhileD)
    qed
    then have "u \<in> set (CRLDistributionPoints cert)" "supportedURL E u" by simp_all
    with ev show "\<exists>u \<in> set (CRLDistributionPoints cert). supportedURL E u \<and> ev = CRLFetch cert u"
      by blast
  qed
next
  assume a: "CRLDistributionPoints cert \<noteq> [] \<and> (\<forall>u \<in> set (CRLDistributionPoints cert). \<not> supportedURL E u)"
  then have "filter (supportedURL E) (CRLDistributionPoints cert) = []" by (simp add: filter_empty_conv)
  with a show "describeCRL E cert w = (''No CRL endpoints we support found'', w)"
    by (simp add: describeCRL_char Let_def)
qed

theorem crl_unsupported_skipped_witness:
  "\<not> supportedURL demoEnv ''ftp://x/y'' \<and> \<not> supportedURL demoEnv '':bad'' \<and>
   emitted (describeCRL demoEnv (demoCert 1 [''ftp://x/y'', '':bad'', ''https://a/ok''])) demoWorld =
     [CRLFetch (demoCert 1 [''ftp://x/y'', '':bad'', ''https://a/ok'']) ''https://a/ok''] \<and>
   describeCRL demoEnv (demoCert 1 [''ftp://x/y'']) demoWorld =
     (''No CRL endpoints we support found'', demoWorld)"
proof -
  note ev = supportedURL_def demoEnv_def demoParse_def demoCRL_def demoCert_def demoWorld_def
  let ?c = "demoCert 1 [''ftp://x/y'', '':bad'', ''https://a/ok'']"
  have u: "\<not> supportedURL demoEnv ''ftp://x/y''" "\<not> supportedURL demoEnv '':bad''"
    by (simp_all add: ev)
  have f: "filter (supportedURL demoEnv) (CRLDistributionPoints ?c) = [''https://a/ok'']"
    by (simp add: ev)
  have ne: "CRLDistributionPoints ?c \<noteq> []" by (simp add: demoCert_def)
  from crl_unsupported_skipped [of demoEnv ?c demoWorld] ne
  have "describeCRL demoEnv ?c demoWorld = describeCRL_loop demoEnv ?c [''https://a/ok''] False demoWorld"
    by (simp only: f) simp
  then have e: "emitted (describeCRL demoEnv ?c) demoWorld = [CRLFetch ?c ''https://a/ok'']"
    by (simp add: emitted_def checkCRLValidCert_def ev)
  have h: "CRLDistributionPoints (demoCert 1 [''ftp://x/y'']) \<noteq> [] \<and>
      (\<forall>u \<in> set (CRLDistributionPoints (demoCert 1 [''ftp://x/y''])). \<not> supportedURL demoEnv u)"
    by (simp add: ev)
  from crl_unsupported_skipped [of demoEnv "demoCert 1 [''ftp://x/y'']" demoWorld] h
  have n: "describeCRL demoEnv (demoCert 1 [''ftp://x/y'']) demoWorld =
     (''No CRL endpoints we support found'', demoWorld)"
    by blast
  from u e n show ?thesis by blast
qed


subsection \<open>Properties of the OCSP check\<close>

lemma describeOCSP_char:
  "describeOCSP E cert intermediates ca w =
     (let chain = (if 1 < length ca then ca # intermediates else intermediates) in
      if chain = []
      then (''Cannot check OCSP, does not have a CA or intermediate certificate provided'', w)
      else (case decodeX509 E (last chain) of
              Inl err \<Rightarrow> (''Cannot parse intermediate certificate: '' @ err,
                          w\<lparr>trace := trace w @ [DecodeCertificate (last chain)]\<rparr>)
            | Inr issuerCert \<Rightarrow>
                ((case ocspOutcome E cert issuerCert of
                    Inl err \<Rightarrow> ''Cannot check OCSP: '' @ err
                  | Inr valid \<Rightarrow> if valid then ''valid'' else ''Marked as revoked''),
                 w\<lparr>trace := trace w @ [DecodeCertificate (last chain), OCSPExchange cert issuerCert]\<rparr>)))"
  by (auto simp: describeOCSP_def DecodeX509CertificateBytes_def checkOCSPValidCert_def Let_def
        split: sum.splits)

text \<open>
  Claim C1, as amended. When an issuer is available, the bytes that the OCSP check decodes
  as issuer are the last supplied intermediate whenever an intermediate is supplied; the
  CA is used only when no intermediate is supplied (and it is longer than one byte). The
  decoded certificate is the one the OCSP exchange is made with.
\<close>

theorem ocsp_issuer_choice:
  assumes "intermediates \<noteq> [] \<or> 1 < length ca"
  shows "emitted (describeOCSP E cert intermediates ca) w =
           (let issuer = (if intermediates \<noteq> [] then last intermediates else ca) in
            DecodeCertificate issuer #
              (case decodeX509 E issuer of
                 Inl err \<Rightarrow> []
               | Inr issuerCert \<Rightarrow> [OCSPExchange cert issuerCert]))"
  using assms
  by (auto simp: emitted_def describeOCSP_char Let_def split: sum.splits)

text \<open>
  Claim C1, as stated, fails: with a three-byte CA and one intermediate, the check decodes
  the intermediate and makes the exchange with it, not with the CA. In the concrete
  setting the answer is \<open>valid\<close>, while the CA alone as issuer gives
  \<open>Marked as revoked\<close>.
\<close>

theorem ocsp_issuer_ca_counterexample:
  "emitted (describeOCSP demoEnv (demoCert 1 []) [[3, 4]] [1, 2, 3]) demoWorld =
     [DecodeCertificate [3, 4], OCSPExchange (demoCert 1 []) (demoCert 2 [])] \<and>
   fst (describeOCSP demoEnv (demoCert 1 []) [[3, 4]] [1, 2, 3] demoWorld) = ''valid'' \<and>
   decodeX509 demoEnv [1, 2, 3] = Inr (demoCert 3 []) \<and>
   fst (describeOCSP demoEnv (demoCert 1 []) [] [1, 2, 3] demoWorld) = ''Marked as revoked''"
  by (simp add: emitted_def describeOCSP_def DecodeX509CertificateBytes_def checkOCSPValidCert_def
        demoEnv_def demoDecode_def demoOCSP_def demoCert_def demoWorld_def)

theorem ocsp_issuer_choice_witness:
  "emitted (describeOCSP demoEnv (demoCert 1 []) [[5, 6, 7], [3, 4]] [1, 2, 3]) demoWorld =
     [DecodeCertificate [3, 4], OCSPExchange (demoCert 1 []) (demoCert 2 [])]"
proof -
  have h: "[[5, 6, 7], [3, 4 :: byte]] \<noteq> [] \<or> 1 < length [1, 2, 3 :: byte]" by simp
  from ocsp_issuer_choice [OF h, where E = demoEnv and cert = "demoCert 1 []" and w = demoWorld]
  show ?thesis by (simp add: demoEnv_def demoDecode_def demoCert_def)
qed



text \<open>
  Claim C10. A CA of length 0 or 1 is treated as absent: the check behaves as with an empty
  CA; with no intermediates it answers that it has no CA or intermediate certificate and
  leaves the world unchanged; and whatever it decodes is the last intermediate, never the
  CA.
\<close>

theorem ocsp_short_ca_absent:
  assumes "length ca \<le> 1"
  shows "describeOCSP E cert intermediates ca w = describeOCSP E cert intermediates [] w \<and>
         describeOCSP E cert [] ca w =
           (''Cannot check OCSP, does not have a CA or intermediate certificate provided'', w) \<and>
         (\<forall>b. DecodeCertificate b \<in> set (emitted (describeOCSP E cert intermediates ca) w) \<longrightarrow>
               intermediates \<noteq> [] \<and> b = last intermediates)"
  using assms
  by (auto simp: emitted_def describeOCSP_char Let_def split: sum.splits)

theorem ocsp_short_ca_absent_witness:
  "describeOCSP demoEnv (demoCert 1 []) [] [7] demoWorld =
     (''Cannot check OCSP, does not have a CA or intermediate certificate provided'', demoWorld) \<and>
   describeOCSP demoEnv (demoCert 1 []) [[3, 4]] [7] demoWorld =
     describeOCSP demoEnv (demoCert 1 []) [[3, 4]] [] demoWorld \<and>
   DecodeCertificate [3, 4] \<in> set (emitted (describeOCSP demoEnv (demoCert 1 []) [[3, 4]] [7]) demoWorld)"
proof -
  have h: "length [7 :: byte] \<le> 1" by simp
  from ocsp_short_ca_absent [OF h, where E = demoEnv and cert = "demoCert 1 []"
      and intermediates = "[]" and w = demoWorld]
  have a: "describeOCSP demoEnv (demoCert 1 []) [] [7] demoWorld =
     (''Cannot check OCSP, does not have a CA or intermediate certificate provided'', demoWorld)"
    by blast
  from ocsp_short_ca_absent [OF h, where E = demoEnv and cert = "demoCert 1 []"
      and intermediates = "[[3, 4]]" and w = demoWorld]
  have b: "describeOCSP demoEnv (demoCert 1 []) [[3, 4]] [7] demoWorld =
     describeOCSP demoEnv (demoCert 1 []) [[3, 4]] [] demoWorld"
    by blast
  have c: "DecodeCertificate [3, 4] \<in> set (emitted (describeOCSP demoEnv (demoCert 1 []) [[3, 4]] [7]) demoWorld)"
    by (simp add: emitted_def describeOCSP_def DecodeX509CertificateBytes_def checkOCSPValidCert_def
          demoEnv_def demoDecode_def demoOCSP_def demoCert_def demoWorld_def)
  from a b c show ?thesis by blast
qed

subsection \<open>Properties of the trust check\<close>

lemma AppendCertsFromPEM_in_place:
  "pools (snd (AppendCertsFromPEM E s pem w)) s = pools w s @ certsFromPEM E pem"
  by (simp add: AppendCertsFromPEM_def)

lemma describeTrusted_loop_char:
  "describeTrusted_loop E s intermediates w =
     w\<lparr>pools := (pools w)(s := pools w s @ concat (map (certsFromPEM E) intermediates))\<rparr>"
  by (induction intermediates arbitrary: w) (simp_all add: AppendCertsFromPEM_def)

lemma describeTrusted_error:
  "systemRoots w = Inl err \<Longrightarrow>
     describeTrusted E cert intermediates w = (''Error getting system CA store: '' @ err, w)"
  by (simp add: describeTrusted_def SystemCertPool_def)

lemma describeTrusted_char:
  assumes "systemRoots w = Inr shared"
  shows "describeTrusted E cert intermediates w =
     (let roots = pools w shared @ concat (map (certsFromPEM E) intermediates) in
      ((case verifyChain E cert roots None (now w) of
          None \<Rightarrow> ''yes''
        | Some err \<Rightarrow> ''no: '' @ err),
       w\<lparr>pools := (pools w)(nextPool w := roots),
         nextPool := Suc (nextPool w),
         trace := trace w @ [Verify cert roots None (now w)]\<rparr>))"
  using assms
  by (simp add: describeTrusted_def SystemCertPool_def describeTrusted_loop_char Verify_cert_def
        clock_Now_def Let_def split: option.splits)

lemma describeCRL_trace:
  "trace (snd (describeCRL E cert w)) = trace w @ emitted (describeCRL E cert) w"
  by (simp add: emitted_def describeCRL_char Let_def)

lemma describeOCSP_trace:
  "trace (snd (describeOCSP E cert intermediates ca w)) =
     trace w @ emitted (describeOCSP E cert intermediates ca) w"
  by (simp add: emitted_def describeOCSP_char Let_def split: sum.splits)

lemma describeCRL_frame:
  "pools (snd (describeCRL E cert w)) = pools w \<and>
   nextPool (snd (describeCRL E cert w)) = nextPool w \<and>
   systemRoots (snd (describeCRL E cert w)) = systemRoots w \<and>
   now (snd (describeCRL E cert w)) = now w"
  by (simp add: describeCRL_char Let_def)

lemma describeOCSP_frame:
  "pools (snd (describeOCSP E cert intermediates ca w)) = pools w \<and>
   nextPool (snd (describeOCSP E cert intermediates ca w)) = nextPool w \<and>
   systemRoots (snd (describeOCSP E cert intermediates ca w)) = systemRoots w \<and>
   now (snd (describeOCSP E cert intermediates ca w)) = now w"
  by (simp add: describeOCSP_char Let_def split: sum.splits)

lemma describeOCSP_fst_world:
  "fst (describeOCSP E cert intermediates ca w) = fst (describeOCSP E cert intermediates ca w')"
  by (simp add: describeOCSP_char Let_def split: sum.splits)

lemma describeCRL_fst_world:
  "fst (describeCRL E cert w) = fst (describeCRL E cert w')"
  by (simp add: describeCRL_fst)

lemma describeDebugging_snd:
  "snd (describeDebugging E cert intermediates ca w) =
     snd (describeOCSP E cert intermediates ca
            (snd (describeCRL E cert (snd (describeTrusted E cert intermediates w)))))"
  by (simp add: describeDebugging_def split: prod.splits)

lemma describeDebugging_fst:
  "fst (describeDebugging E cert intermediates ca w) =
     debuggingTemplate (fst (describeTrusted E cert intermediates w))
       (fst (describeCRL E cert (snd (describeTrusted E cert intermediates w))))
       (fst (describeOCSP E cert intermediates ca
               (snd (describeCRL E cert (snd (describeTrusted E cert intermediates w))))))"
  by (simp add: describeDebugging_def split: prod.splits)

text \<open>
  Claim C2, as amended. When the system store loads, the trust verdict is computed by one
  verification whose roots are a copy of the system store followed by the certificates
  found in the supplied intermediates, with no intermediates pool, at the time of the
  clock. The verdict is \<open>yes\<close> or \<open>no\<close> with the verifier's error. In
  \<open>describeDebugging\<close> the same verification comes first, whatever CA is supplied:
  the CA takes no part in it.
\<close>

theorem trusted_pool_contents:
  assumes "systemRoots w = Inr shared"
  shows "emitted (describeTrusted E cert intermediates) w =
           [Verify cert (pools w shared @ concat (map (certsFromPEM E) intermediates)) None (now w)] \<and>
         fst (describeTrusted E cert intermediates w) =
           (case verifyChain E cert (pools w shared @ concat (map (certsFromPEM E) intermediates)) None (now w) of
              None \<Rightarrow> ''yes''
            | Some err \<Rightarrow> ''no: '' @ err) \<and>
         take 1 (emitted (describeDebugging E cert intermediates ca) w) =
           [Verify cert (pools w shared @ concat (map (certsFromPEM E) intermediates)) None (now w)]"
proof (intro conjI)
  let ?roots = "pools w shared @ concat (map (certsFromPEM E) intermediates)"
  show e: "emitted (describeTrusted E cert intermediates) w = [Verify cert ?roots None (now w)]"
    by (simp add: emitted_def describeTrusted_char [OF assms] Let_def)
  show "fst (describeTrusted E cert intermediates w) =
           (case verifyChain E cert ?roots None (now w) of None \<Rightarrow> ''yes'' | Some err \<Rightarrow> ''no: '' @ err)"
    by (simp add: describeTrusted_char [OF assms] Let_def)
  have t: "trace (snd (describeTrusted E cert intermediates w)) = trace w @ [Verify cert ?roots None (now w)]"
    by (simp add: describeTrusted_char [OF assms] Let_def)
  have tr: "trace (snd (describeDebugging E cert intermediates ca w)) =
      trace w @ Verify cert ?roots None (now w) #
        (emitted (describeCRL E cert) (snd (describeTrusted E cert intermediates w)) @
         emitted (describeOCSP E cert intermediates ca)
           (snd (describeCRL E cert (snd (describeTrusted E cert intermediates w)))))"
    by (simp add: describeDebugging_snd describeOCSP_trace describeCRL_trace t)
  show "take 1 (emitted (describeDebugging E cert intermediates ca) w) = [Verify cert ?roots None (now w)]"
    unfolding emitted_def [of "describeDebugging E cert intermediates ca" w] tr by simp
qed

text \<open>
  Claim C2, as stated, fails: with one intermediate and a CA supplied, the verification is
  made with the intermediate's certificate among the roots, with no intermediates pool,
  and without the CA's certificate.
\<close>

theorem trusted_pool_counterexample:
  "emitted (describeTrusted demoEnv (demoCert 1 []) [[3, 4]]) demoWorld =
     [Verify (demoCert 1 []) [demoCert 100 [], demoCert 2 []] None 1000] \<and>
   take 1 (emitted (describeDebugging demoEnv (demoCert 1 []) [[3, 4]] [1, 2, 3]) demoWorld) =
     [Verify (demoCert 1 []) [demoCert 100 [], demoCert 2 []] None 1000] \<and>
   certsFromPEM demoEnv [3, 4] = [demoCert 2 []] \<and>
   certsFromPEM demoEnv [1, 2, 3] = [demoCert 3 []] \<and>
   demoCert 3 [] \<notin> set [demoCert 100 [], demoCert 2 []]"
  by (simp add: emitted_def describeDebugging_def describeTrusted_def SystemCertPool_def
        AppendCertsFromPEM_def Verify_cert_def clock_Now_def describeCRL_def describeOCSP_def
        DecodeX509CertificateBytes_def checkOCSPValidCert_def Let_def
        demoEnv_def demoPEM_def demoDecode_def demoOCSP_def demoVerify_def demoCert_def demoWorld_def)

theorem trusted_pool_contents_witness:
  "emitted (describeTrusted demoEnv (demoCert 1 []) [[3, 4]]) demoWorld =
     [Verify (demoCert 1 []) [demoCert 100 [], demoCert 2 []] None 1000] \<and>
   fst (describeTrusted demoEnv (demoCert 1 []) [[3, 4]] demoWorld) = ''yes''"
proof -
  have h: "systemRoots demoWorld = Inr 0" by (simp add: demoWorld_def)
  from trusted_pool_contents [OF h, of demoEnv "demoCert 1 []" "[[3, 4]]" "[1, 2, 3]"]
  show ?thesis
    by (simp add: demoEnv_def demoPEM_def demoDecode_def demoVerify_def demoCert_def demoWorld_def)
qed

text \<open>
  Claim C8. The trust check works on a copy of the system store: after it, and after the
  three checks together, the process-wide pool holds what it held before, the reference to
  it is the same, and so is every pool that existed before the call.
\<close>

theorem trusted_leaves_system_store:
  assumes sys: "systemRoots w = Inr shared" and alloc: "shared < nextPool w"
  shows "pools (snd (describeTrusted E cert intermediates w)) shared = pools w shared \<and>
         systemRoots (snd (describeTrusted E cert intermediates w)) = systemRoots w \<and>
         (\<forall>p < nextPool w. pools (snd (describeTrusted E cert intermediates w)) p = pools w p) \<and>
         pools (snd (describeDebugging E cert intermediates ca w)) shared = pools w shared \<and>
         systemRoots (snd (describeDebugging E cert intermediates ca w)) = systemRoots w"
  using alloc
  by (simp add: describeTrusted_char [OF sys] describeDebugging_snd describeOCSP_frame
        describeCRL_frame Let_def)

theorem trusted_leaves_system_store_witness:
  "pools (snd (describeTrusted demoEnv (demoCert 1 []) [[3, 4]] demoWorld)) 0 = [demoCert 100 []] \<and>
   pools (snd (describeDebugging demoEnv (demoCert 1 []) [[3, 4]] [1, 2, 3] demoWorld)) 0 = [demoCert 100 []]"
proof -
  have h: "systemRoots demoWorld = Inr 0" by (simp add: demoWorld_def)
  have a: "0 < nextPool demoWorld" by (simp add: demoWorld_def)
  from trusted_leaves_system_store [OF h a, of demoEnv "demoCert 1 []" "[[3, 4]]" "[1, 2, 3]"]
  show ?thesis by (simp add: demoWorld_def)
qed

lemma describeTrusted_again:
  assumes "wellAllocated w"
  shows "fst (describeTrusted E cert intermediates (snd (describeTrusted E cert intermediates w))) =
         fst (describeTrusted E cert intermediates w)"
proof (cases "systemRoots w")
  case (Inl err)
  then show ?thesis by (simp add: describeTrusted_error)
next
  case (Inr shared)
  with assms have alloc: "shared < nextPool w" by (simp add: wellAllocated_def)
  let ?w1 = "snd (describeTrusted E cert intermediates w)"
  have s1: "systemRoots ?w1 = Inr shared" and p1: "pools ?w1 shared = pools w shared"
    and n1: "now ?w1 = now w"
    using alloc Inr by (simp_all add: describeTrusted_char [OF Inr] Let_def)
  show ?thesis
    by (simp add: describeTrusted_char [OF s1] p1 n1 Let_def) (simp add: describeTrusted_char [OF Inr] Let_def)
qed

lemma describeTrusted_fst_world:
  assumes "now w' = now w" and "systemStore w' = systemStore w"
  shows "fst (describeTrusted E cert intermediates w') = fst (describeTrusted E cert intermediates w)"
proof (cases "systemRoots w")
  case (Inl err)
  with assms(2) have "systemRoots w' = Inl err"
    by (cases "systemRoots w'") (simp_all add: systemStore_def)
  with Inl show ?thesis by (simp add: describeTrusted_error)
next
  case (Inr shared)
  with assms(2) obtain shared' where s': "systemRoots w' = Inr shared'"
    and p: "pools w' shared' = pools w shared"
    by (cases "systemRoots w'") (simp_all add: systemStore_def)
  show ?thesis
    by (simp add: describeTrusted_char [OF Inr] describeTrusted_char [OF s'] p assms(1) Let_def)
qed

text \<open>
  Claim C9. With the collaborators and the clock fixed, running a check a second time, in
  the world the first run left behind, returns the same string: for the trust check, the
  CRL check and the OCSP check. More generally the CRL and OCSP answers do not depend on
  the world at all, and the trust answer depends on it only through the clock and the
  contents of the system store.
\<close>

theorem checks_repeatable:
  assumes "wellAllocated w"
  shows "fst (describeTrusted E cert intermediates (snd (describeTrusted E cert intermediates w))) =
           fst (describeTrusted E cert intermediates w) \<and>
         fst (describeCRL E cert (snd (describeCRL E cert w))) = fst (describeCRL E cert w) \<and>
         fst (describeOCSP E cert intermediates ca (snd (describeOCSP E cert intermediates ca w))) =
           fst (describeOCSP E cert intermediates ca w) \<and>
         fst (describeCRL E cert w') = fst (describeCRL E cert w) \<and>
         fst (describeOCSP E cert intermediates ca w') = fst (describeOCSP E cert intermediates ca w) \<and>
         (now w' = now w \<and> systemStore w' = systemStore w \<longrightarrow>
            fst (describeTrusted E cert intermediates w') = fst (describeTrusted E cert intermediates w))"
  using describeTrusted_again [OF assms]
    describeCRL_fst_world [of E cert _ w]
    describeOCSP_fst_world [of E cert intermediates ca _ w]
    describeTrusted_fst_world [of w' w E cert intermediates]
  by blast

theorem checks_repeatable_witness:
  "fst (describeTrusted demoEnv (demoCert 1 []) [[3, 4]]
          (snd (describeTrusted demoEnv (demoCert 1 []) [[3, 4]] demoWorld))) = ''yes'' \<and>
   fst (describeTrusted demoEnv (demoCert 1 []) [[3, 4]] demoWorld) = ''yes'' \<and>
   fst (describeTrusted demoEnv (demoCert 1 []) [[3, 4]] (demoWorld\<lparr>nextPool := 7, trace := [DecodeCertificate []]\<rparr>)) = ''yes''"
proof -
  have h: "wellAllocated demoWorld" by (simp add: wellAllocated_def demoWorld_def)
  have y: "fst (describeTrusted demoEnv (demoCert 1 []) [[3, 4]] demoWorld) = ''yes''"
    by (simp add: describeTrusted_def SystemCertPool_def AppendCertsFromPEM_def Verify_cert_def
          clock_Now_def Let_def demoEnv_def demoPEM_def demoDecode_def demoVerify_def demoCert_def demoWorld_def)
  have same: "now (demoWorld\<lparr>nextPool := 7, trace := [DecodeCertificate []]\<rparr>) = now demoWorld \<and>
      systemStore (demoWorld\<lparr>nextPool := 7, trace := [DecodeCertificate []]\<rparr>) = systemStore demoWorld"
    by (simp add: systemStore_def demoWorld_def)
  from checks_repeatable [OF h, where E = demoEnv and cert = "demoCert 1 []"
      and intermediates = "[[3, 4]]"
      and w' = "demoWorld\<lparr>nextPool := 7, trace := [DecodeCertificate []]\<rparr>"] y same
  show ?thesis by metis
qed

end
